theory Spec2Isabelle
  imports Complex_Main "HOL-Library.Sublist"
begin

section \<open>Python values and built-ins used by \<open>src/main.py\<close>\<close>

text \<open>
  The check result of \<open>URLMonitor.check_url\<close> is a Python dict whose values are
  \<open>None\<close>, booleans, integers, floats and strings. Floats are idealised as real
  numbers: the clock readings, their difference and the comparison against the
  latency cap are exact.
\<close>

datatype pyval = PNone | PBool bool | PInt int | PFloat real | PStr string

definition digit_char :: "nat \<Rightarrow> char" where
  "digit_char d = ''0123456789'' ! d"

fun str_nat :: "nat \<Rightarrow> string" where
  "str_nat n = (if n < 10 then [digit_char n] else str_nat (n div 10) @ [digit_char (n mod 10)])"

declare str_nat.simps [simp del]

text \<open>\<open>str(i)\<close> for a Python \<open>int\<close>: decimal digits, with a leading minus sign.\<close>

definition str_int :: "int \<Rightarrow> string" where
  "str_int i = (if i < 0 then ''-'' @ str_nat (nat (- i)) else str_nat (nat i))"

fun frac_digits :: "nat \<Rightarrow> real \<Rightarrow> string" where
  "frac_digits n f =
     (if n = 0 \<or> f = 0 then []
      else let d = nat \<lfloor>f * 10\<rfloor> in digit_char d # frac_digits (n - 1) (f * 10 - of_nat d))"

declare frac_digits.simps [simp del]

text \<open>
  \<open>str(x)\<close> for a Python \<open>float\<close>, as an f-string interpolates it: the integer part,
  a point, and the fractional digits (at least one, at most 17). It is the text Python
  prints for a value with a short decimal expansion and a magnitude between \<open>1e-4\<close>
  and \<open>1e16\<close>, which is where elapsed milliseconds live.
\<close>

definition str_float :: "real \<Rightarrow> string" where
  "str_float x =
     (let a = \<bar>x\<bar>; ip = nat \<lfloor>a\<rfloor>; fr = a - of_nat ip
      in (if x < 0 then ''-'' else '''') @ str_nat ip @ ''.'' @
         (if fr = 0 then ''0'' else frac_digits 17 fr))"

text \<open>Rounding of an exact tie goes to the even neighbour, as Python's \<open>round\<close> does.\<close>

definition round_half_even :: "real \<Rightarrow> int" where
  "round_half_even x =
     (let f = \<lfloor>x\<rfloor>; d = x - of_int f
      in if d < 1 / 2 then f else if 1 / 2 < d then f + 1
         else if even f then f else f + 1)"

text \<open>\<open>round(x, ndigits)\<close>.\<close>

definition py_round :: "real \<Rightarrow> nat \<Rightarrow> real" where
  "py_round x ndigits = of_int (round_half_even (x * 10 ^ ndigits)) / 10 ^ ndigits"

text \<open>\<open>str(v)\<close>, which is what an f-string field without a format spec renders.\<close>

fun py_str :: "pyval \<Rightarrow> string" where
  "py_str PNone = ''None''"
| "py_str (PBool b) = (if b then ''True'' else ''False'')"
| "py_str (PInt i) = str_int i"
| "py_str (PFloat x) = str_float x"
| "py_str (PStr s) = s"

text \<open>\<open>s in text\<close> on strings: \<open>s\<close> occurs as a contiguous, case-sensitive substring.\<close>

fun py_in :: "string \<Rightarrow> string \<Rightarrow> bool" where
  "py_in s [] = (s = [])"
| "py_in s (c # cs) = (prefix s (c # cs) \<or> py_in s cs)"

text \<open>
  Truth value of \<open>url_config["search_string"]\<close> in an \<open>if\<close>: \<open>None\<close> and the empty
  string are both false.
\<close>

fun truthy :: "string option \<Rightarrow> bool" where
  "truthy None = False"
| "truthy (Some s) = (s \<noteq> [])"

section \<open>Configuration\<close>

record target =
  url :: string
  expected_status :: int
  search_string :: "string option"

record smtp_config =
  server :: string
  port :: int
  username :: string
  password :: string
  smtp_from :: string
  smtp_to :: "string list"
  subject_prefix :: string

record monitoring_config =
  timeout_seconds :: real
  check_interval_minutes :: int
  max_response_time_ms :: real

record config =
  urls :: "target list"
  smtp :: smtp_config
  monitoring :: monitoring_config

section \<open>\<open>URLMonitor.check_url\<close>\<close>

text \<open>
  What \<open>self.session.get\<close> does: it returns a response, of which the code reads
  \<open>status_code\<close> and \<open>text\<close>, or it raises an exception, of which the code reads
  \<open>str(e)\<close>. A probe is one run of the \<open>try\<close> block seen from outside: the reading of
  \<open>time.time()\<close> before the request, the outcome of the request, and the reading of
  \<open>time.time()\<close> after it (in seconds; the second reading happens only after a
  response).
\<close>

datatype http_outcome = Response int string | Raised string

record probe =
  start_time :: real
  outcome :: http_outcome
  end_time :: real

type_synonym check_result = "string \<rightharpoonup> pyval"

definition check_url :: "config \<Rightarrow> target \<Rightarrow> string \<Rightarrow> probe \<Rightarrow> check_result" where
  "check_url cfg url_config utcnow p =
     (let result = [''url'' \<mapsto> PStr (url url_config),
                    ''timestamp'' \<mapsto> PStr utcnow,
                    ''success'' \<mapsto> PBool False,
                    ''status_code'' \<mapsto> PNone,
                    ''response_time_ms'' \<mapsto> PNone,
                    ''error'' \<mapsto> PNone,
                    ''content_verified'' \<mapsto> PNone]
      in case outcome p of
           Raised e \<Rightarrow> result(''error'' \<mapsto> PStr e)
         | Response status_code text \<Rightarrow>
             (let response_time = (end_time p - start_time p) * 1000;
                  result = result(''response_time_ms'' \<mapsto> PFloat (py_round response_time 2));
                  result = result(''status_code'' \<mapsto> PInt status_code);
                  check_response_time = (\<lambda>result.
                    if max_response_time_ms (monitoring cfg) < response_time
                    then result(''error'' \<mapsto> PStr (''Slow response: '' @ str_float response_time @ ''ms''))
                    else result(''success'' \<mapsto> PBool True))
              in if status_code \<noteq> expected_status url_config
                 then result(''error'' \<mapsto> PStr (''Unexpected status: '' @ str_int status_code))
                 else if truthy (search_string url_config)
                 then (let content_match = py_in (the (search_string url_config)) text;
                           result = result(''content_verified'' \<mapsto> PBool content_match)
                       in if \<not> content_match
                          then result(''error'' \<mapsto> PStr ''Search string not found in response'')
                          else check_response_time result)
                 else check_response_time result))"

text \<open>
  The messages of the sub-checks of \<open>check_url\<close> that fail on a response, each one
  evaluated on its own and listed in the order of precedence (status, content, latency).
  \<open>check_url\<close> itself stops at the first failure; this list is what it is compared with.
\<close>

definition failing_sub_checks :: "config \<Rightarrow> target \<Rightarrow> int \<Rightarrow> string \<Rightarrow> real \<Rightarrow> string list" where
  "failing_sub_checks cfg url_config status_code text response_time =
     (if status_code \<noteq> expected_status url_config
      then [''Unexpected status: '' @ str_int status_code] else []) @
     (if truthy (search_string url_config) \<and> \<not> py_in (the (search_string url_config)) text
      then [''Search string not found in response''] else []) @
     (if max_response_time_ms (monitoring cfg) < response_time
      then [''Slow response: '' @ str_float response_time @ ''ms''] else [])"

section \<open>\<open>URLMonitor.send_alert\<close>\<close>

text \<open>
  An exception is represented by \<open>str(e)\<close>, the only thing the handlers read. A
  computation that may raise returns \<open>Inl\<close> of that text or \<open>Inr\<close> of its value.
\<close>

type_synonym 'a raising = "string + 'a"

text \<open>\<open>d[k]\<close>: a missing key raises \<open>KeyError(k)\<close>, whose text is the quoted key.\<close>

definition getitem :: "check_result \<Rightarrow> string \<Rightarrow> pyval raising" where
  "getitem d k = (case d k of None \<Rightarrow> Inl ([CHR 0x27] @ k @ [CHR 0x27]) | Some v \<Rightarrow> Inr v)"

text \<open>\<open>d.get(k, default)\<close>: the default is returned only when the key is missing.\<close>

definition py_get :: "check_result \<Rightarrow> string \<Rightarrow> pyval \<Rightarrow> pyval" where
  "py_get d k dflt = (case d k of None \<Rightarrow> dflt | Some v \<Rightarrow> v)"

text \<open>\<open>sep.join(xs)\<close>.\<close>

fun join :: "string \<Rightarrow> string list \<Rightarrow> string" where
  "join sep [] = []"
| "join sep [x] = x"
| "join sep (x # y # ys) = x @ sep @ join sep (y # ys)"

record email =
  msg_from :: string
  msg_to :: string
  msg_subject :: string
  msg_body :: string

text \<open>
  The body template of the alert. Every line of the triple-quoted f-string sits behind
  twelve spaces of indentation, blank lines included; the text starts with a newline and
  ends with the indentation of the closing quotes.
\<close>

definition alert_body_lines :: "pyval \<Rightarrow> pyval \<Rightarrow> pyval \<Rightarrow> pyval \<Rightarrow> pyval \<Rightarrow> pyval \<Rightarrow> string list" where
  "alert_body_lines u ts err sc rt cv =
     [''URL Monitoring Alert'',
      ''-------------------'',
      [],
      ''URL: '' @ py_str u,
      ''Time: '' @ py_str ts,
      ''Error: '' @ py_str err,
      [],
      ''Diagnostics:'',
      ''- Status Code: '' @ py_str sc,
      ''- Response Time: '' @ py_str rt @ '' ms'',
      ''- Content Verified: '' @ py_str cv,
      [],
      ''Recommended Actions:'',
      ''1. Verify server connectivity'',
      ''2. Check application logs'',
      ''3. Validate recent deployments'']"

definition render_body :: "string list \<Rightarrow> string" where
  "render_body ls =
     [CHR 0x0A] @ concat (map (\<lambda>l. ''            '' @ l @ [CHR 0x0A]) ls) @ ''            ''"

text \<open>
  The first part of the \<open>try\<close> block of \<open>send_alert\<close>: building the message. The
  subscripts \<open>check_result['url']\<close>, \<open>['timestamp']\<close> and \<open>['error']\<close> raise on a
  missing key; the three diagnostic fields are read with \<open>.get(key, 'N/A')\<close>.
\<close>

definition alert_message :: "config \<Rightarrow> check_result \<Rightarrow> email raising" where
  "alert_message cfg check_result =
     (let smtp_config = smtp cfg
      in case getitem check_result ''url'' of Inl e \<Rightarrow> Inl e | Inr u0 \<Rightarrow>
        (let subject = subject_prefix smtp_config @ '' Failure: '' @ py_str u0
         in case getitem check_result ''url'' of Inl e \<Rightarrow> Inl e | Inr u \<Rightarrow>
           (case getitem check_result ''timestamp'' of Inl e \<Rightarrow> Inl e | Inr ts \<Rightarrow>
             (case getitem check_result ''error'' of Inl e \<Rightarrow> Inl e | Inr err \<Rightarrow>
                Inr \<lparr>msg_from = smtp_from smtp_config,
                     msg_to = join '', '' (smtp_to smtp_config),
                     msg_subject = subject,
                     msg_body = render_body (alert_body_lines u ts err
                       (py_get check_result ''status_code'' (PStr ''N/A''))
                       (py_get check_result ''response_time_ms'' (PStr ''N/A''))
                       (py_get check_result ''content_verified'' (PStr ''N/A'')))\<rparr>))))"

text \<open>
  One SMTP session as the mail relay decides it. Each step of the \<open>with\<close> statement
  either goes through (\<open>None\<close>) or raises (\<open>Some\<close> of the exception's text): opening
  the connection in \<open>smtplib.SMTP(server, port)\<close>, \<open>starttls\<close>, \<open>login\<close>,
  \<open>send_message\<close>, and the \<open>QUIT\<close> that leaving the \<open>with\<close> block sends.
\<close>

record smtp_session =
  connect_raises :: "string option"
  starttls_raises :: "string option"
  login_raises :: "string option"
  send_message_raises :: "string option"
  quit_raises :: "string option"

datatype level = INFO | ERROR

text \<open>
  What the monitor leaves behind: the log records, the messages the relay accepted, and
  the arguments of every call of \<open>send_alert\<close> in the order of the calls.
\<close>

record world =
  log :: "(level \<times> string) list"
  outbox :: "email list"
  alert_calls :: "check_result list"

definition logging_info :: "string \<Rightarrow> world \<Rightarrow> world" where
  "logging_info m w = w\<lparr>log := log w @ [(INFO, m)]\<rparr>"

definition logging_error :: "string \<Rightarrow> world \<Rightarrow> world" where
  "logging_error m w = w\<lparr>log := log w @ [(ERROR, m)]\<rparr>"

text \<open>
  The \<open>with smtplib.SMTP(...) as server\<close> statement of \<open>send_alert\<close>: the exception
  that leaves it, if any, and the world at that moment. When the constructor raises,
  the block is never entered. Otherwise the three calls run until one raises, and the
  block is left through \<open>__exit__\<close>, whose own exception replaces the pending one.
\<close>

definition smtp_with :: "smtp_session \<Rightarrow> email \<Rightarrow> world \<Rightarrow> string option \<times> world" where
  "smtp_with relay msg w =
     (case connect_raises relay of Some e \<Rightarrow> (Some e, w) | None \<Rightarrow>
       (let (raised, w1) =
          (case starttls_raises relay of Some e \<Rightarrow> (Some e, w) | None \<Rightarrow>
            (case login_raises relay of Some e \<Rightarrow> (Some e, w) | None \<Rightarrow>
              (case send_message_raises relay of Some e \<Rightarrow> (Some e, w) | None \<Rightarrow>
                 (None, w\<lparr>outbox := outbox w @ [msg]\<rparr>))))
        in case quit_raises relay of Some e \<Rightarrow> (Some e, w1) | None \<Rightarrow> (raised, w1)))"

text \<open>
  \<open>send_alert\<close>: the \<open>try\<close> block and its \<open>except Exception\<close> handler. Every
  exception of the block ends in the handler, which logs it and returns \<open>False\<close>.
\<close>

definition send_alert :: "config \<Rightarrow> smtp_session \<Rightarrow> check_result \<Rightarrow> world \<Rightarrow> bool \<times> world" where
  "send_alert cfg relay check_result w =
     (let w = w\<lparr>alert_calls := alert_calls w @ [check_result]\<rparr>
      in case alert_message cfg check_result of
           Inl e \<Rightarrow> (False, logging_error (''Failed to send alert: '' @ e) w)
         | Inr msg \<Rightarrow>
            (case smtp_with relay msg w of
               (Some e, w1) \<Rightarrow> (False, logging_error (''Failed to send alert: '' @ e) w1)
             | (None, w1) \<Rightarrow>
                (case getitem check_result ''url'' of
                   Inl e \<Rightarrow> (False, logging_error (''Failed to send alert: '' @ e) w1)
                 | Inr u \<Rightarrow> (True, logging_info (''Alert sent for '' @ py_str u) w1))))"

section \<open>\<open>URLMonitor.run_checks\<close>\<close>

text \<open>Truth value of a Python value in an \<open>if\<close>.\<close>

fun py_bool :: "pyval \<Rightarrow> bool" where
  "py_bool PNone = False"
| "py_bool (PBool b) = b"
| "py_bool (PInt i) = (i \<noteq> 0)"
| "py_bool (PFloat x) = (x \<noteq> 0)"
| "py_bool (PStr s) = (s \<noteq> [])"

text \<open>
  The surroundings of one cycle, by the position of the target in the configured list:
  the UTC timestamp \<open>check_url\<close> reads, the probe it runs, and the SMTP session
  \<open>send_alert\<close> would get.
\<close>

record cycle_env =
  utc_clock :: "nat \<Rightarrow> string"
  probes :: "nat \<Rightarrow> probe"
  relay_sessions :: "nat \<Rightarrow> smtp_session"

text \<open>
  The \<open>for\<close> loop of \<open>run_checks\<close>, \<open>i\<close> being the position of the next target. The two
  marks in the log lines are the UTF-8 bytes of the check mark and of the ballot cross.
\<close>

fun run_loop :: "config \<Rightarrow> cycle_env \<Rightarrow> nat \<Rightarrow> target list \<Rightarrow> world \<Rightarrow> world raising" where
  "run_loop cfg env i [] w = Inr w"
| "run_loop cfg env i (url_config # rest) w =
     (let result = check_url cfg url_config (utc_clock env i) (probes env i)
      in case getitem result ''success'' of Inl e \<Rightarrow> Inl e | Inr ok \<Rightarrow>
         if py_bool ok
         then (case getitem result ''response_time_ms'' of Inl e \<Rightarrow> Inl e | Inr rt \<Rightarrow>
                 run_loop cfg env (Suc i) rest
                   (logging_info ([CHR 0xE2, CHR 0x9C, CHR 0x93] @ '' '' @ url url_config @
                                  '' - '' @ py_str rt @ ''ms'') w))
         else (case getitem result ''error'' of Inl e \<Rightarrow> Inl e | Inr err \<Rightarrow>
                 run_loop cfg env (Suc i) rest
                   (snd (send_alert cfg (relay_sessions env i) result
                      (logging_error ([CHR 0xE2, CHR 0x9C, CHR 0x97] @ '' '' @ url url_config @
                                      '' - '' @ py_str err) w)))))"

definition run_checks :: "config \<Rightarrow> cycle_env \<Rightarrow> world \<Rightarrow> world raising" where
  "run_checks cfg env w =
     (case run_loop cfg env 0 (urls cfg) (logging_info ''Starting URL monitoring checks...'' w) of
        Inl e \<Rightarrow> Inl e
      | Inr w' \<Rightarrow> Inr (logging_info ''Completed all checks'' w'))"

section \<open>The shipped configuration\<close>

definition CONFIG :: config where
  "CONFIG =
     \<lparr>urls = [\<lparr>url = ''https://www.google.com'', expected_status = 200, search_string = None\<rparr>,
              \<lparr>url = ''https://www.example.com'', expected_status = 200,
               search_string = Some ''Example Domain''\<rparr>],
      smtp = \<lparr>server = ''smtp.gmail.com'', port = 587, username = ''your_email@gmail.com'',
              password = ''your_app_specific_password'', smtp_from = ''monitoring@yourdomain.com'',
              smtp_to = [''admin@yourdomain.com'', ''backup@yourdomain.com''],
              subject_prefix = ''[URL Monitor]''\<rparr>,
      monitoring = \<lparr>timeout_seconds = 10, check_interval_minutes = 5,
                    max_response_time_ms = 2000\<rparr>\<rparr>"

section \<open>Helper lemmas\<close>

text \<open>
  \<open>py_in\<close> decides the substring relation of the library.
\<close>

lemma py_in_iff_sublist: "py_in s t \<longleftrightarrow> sublist s t"
  by (induction t) (auto simp: sublist_Cons_right)

text \<open>
  Every check result carries the keys that \<open>run_checks\<close> subscripts.
\<close>

lemma check_url_success_key: "\<exists>b. check_url cfg t now p ''success'' = Some (PBool b)"
  by (cases "outcome p") (auto simp add: check_url_def Let_def)

lemma check_url_has_keys:
  "\<exists>v. check_url cfg t now p ''error'' = Some v"
  "\<exists>v. check_url cfg t now p ''response_time_ms'' = Some v"
  by (cases "outcome p"; simp add: check_url_def Let_def)+

text \<open>
  A call of \<open>send_alert\<close> is recorded once and leaves exactly one log record, whatever
  the relay does.
\<close>

lemma send_alert_calls: "alert_calls (snd (send_alert cfg s r w)) = alert_calls w @ [r]"
  by (simp add: send_alert_def smtp_with_def Let_def logging_error_def logging_info_def
      split: sum.split option.split prod.split)

lemma send_alert_log: "length (log (snd (send_alert cfg s r w))) = Suc (length (log w))"
  by (simp add: send_alert_def smtp_with_def Let_def logging_error_def logging_info_def
      split: sum.split option.split prod.split)

text \<open>
  The loop never raises; it calls \<open>send_alert\<close> on the failing results, in order, and
  writes one log record per target plus one per call.
\<close>

lemma run_loop_total:
  "\<exists>w'. run_loop cfg env i ts w = Inr w'
     \<and> alert_calls w' = alert_calls w @ filter (\<lambda>r. r ''success'' = Some (PBool False))
          (map (\<lambda>(k, t). check_url cfg t (utc_clock env k) (probes env k)) (enumerate i ts))
     \<and> length (log w') + length (alert_calls w) = length (log w) + length ts + length (alert_calls w')"
proof (induction ts arbitrary: i w)
  case Nil
  show ?case by simp
next
  case (Cons t ts)
  let ?r = "check_url cfg t (utc_clock env i) (probes env i)"
  obtain b where b: "?r ''success'' = Some (PBool b)"
    using check_url_success_key by blast
  obtain e where e: "?r ''error'' = Some e"
    using check_url_has_keys(1) by blast
  obtain rt where rt: "?r ''response_time_ms'' = Some rt"
    using check_url_has_keys(2) by blast
  show ?case
  proof (cases b)
    case True
    let ?w1 = "logging_info ([CHR 0xE2, CHR 0x9C, CHR 0x93] @ '' '' @ url t @
                             '' - '' @ py_str rt @ ''ms'') w"
    have step: "run_loop cfg env i (t # ts) w = run_loop cfg env (Suc i) ts ?w1"
      using True b rt by (simp add: getitem_def Let_def)
    have w1: "alert_calls ?w1 = alert_calls w" "length (log ?w1) = Suc (length (log w))"
      by (simp_all add: logging_info_def)
    from Cons.IH [of "Suc i" ?w1] obtain w' where
      "run_loop cfg env (Suc i) ts ?w1 = Inr w'"
      "alert_calls w' = alert_calls ?w1 @ filter (\<lambda>r. r ''success'' = Some (PBool False))
          (map (\<lambda>(k, t). check_url cfg t (utc_clock env k) (probes env k)) (enumerate (Suc i) ts))"
      "length (log w') + length (alert_calls ?w1) = length (log ?w1) + length ts + length (alert_calls w')"
      by blast
    with step w1 True b show ?thesis by simp
  next
    case False
    let ?w0 = "logging_error ([CHR 0xE2, CHR 0x9C, CHR 0x97] @ '' '' @ url t @
                              '' - '' @ py_str e) w"
    let ?w1 = "snd (send_alert cfg (relay_sessions env i) ?r ?w0)"
    have step: "run_loop cfg env i (t # ts) w = run_loop cfg env (Suc i) ts ?w1"
      using False b e by (simp add: getitem_def Let_def)
    have w0: "alert_calls ?w0 = alert_calls w" "length (log ?w0) = Suc (length (log w))"
      by (simp_all add: logging_error_def)
    have w1: "alert_calls ?w1 = alert_calls w @ [?r]" "length (log ?w1) = Suc (Suc (length (log w)))"
      using w0 by (simp_all add: send_alert_calls send_alert_log)
    from Cons.IH [of "Suc i" ?w1] obtain w' where
      "run_loop cfg env (Suc i) ts ?w1 = Inr w'"
      "alert_calls w' = alert_calls ?w1 @ filter (\<lambda>r. r ''success'' = Some (PBool False))
          (map (\<lambda>(k, t). check_url cfg t (utc_clock env k) (probes env k)) (enumerate (Suc i) ts))"
      "length (log w') + length (alert_calls ?w1) = length (log ?w1) + length ts + length (alert_calls w')"
      by blast
    with step w1 False b show ?thesis by simp
  qed
qed

section \<open>Properties of \<open>check_url\<close>\<close>

text \<open>
  Claim C1, as amended. When \<open>success\<close> is true, \<open>error\<close> is \<open>None\<close>, and
  \<open>content_verified\<close> is true if the search string is set to a non-empty string. One
  error at most is recorded: after an exception its text, after a response the message of
  the first failing sub-check in the order status, content, latency, and \<open>None\<close>
  together with \<open>success\<close> exactly when no sub-check fails.
\<close>

theorem check_url_success_invariant:
  "(check_url cfg t now p ''success'' = Some (PBool True) \<longrightarrow>
      check_url cfg t now p ''error'' = Some PNone
      \<and> (truthy (search_string t) \<longrightarrow> check_url cfg t now p ''content_verified'' = Some (PBool True)))
   \<and> check_url cfg t now p ''error'' =
       Some (case outcome p of
               Raised e \<Rightarrow> PStr e
             | Response sc text \<Rightarrow>
                 (case failing_sub_checks cfg t sc text ((end_time p - start_time p) * 1000) of
                    [] \<Rightarrow> PNone
                  | e # _ \<Rightarrow> PStr e))
   \<and> check_url cfg t now p ''success'' =
       Some (PBool (case outcome p of
               Raised e \<Rightarrow> False
             | Response sc text \<Rightarrow>
                 failing_sub_checks cfg t sc text ((end_time p - start_time p) * 1000) = []))"
  by (simp add: check_url_def failing_sub_checks_def Let_def split: http_outcome.split)

text \<open>
  The scenario of the specification: the expected status, the search string present in
  the body, 50 ms elapsed under a cap of 2000 ms.
\<close>

theorem check_url_success_invariant_witness:
  "check_url CONFIG \<lparr>url = ''https://www.example.com'', expected_status = 200,
          search_string = Some ''Example Domain''\<rparr> ''2024-01-01T00:00:00''
        \<lparr>start_time = 0, outcome = Response 200 ''Example Domain here'', end_time = 1 / 20\<rparr> ''success''
     = Some (PBool True)
   \<and> check_url CONFIG \<lparr>url = ''https://www.example.com'', expected_status = 200,
          search_string = Some ''Example Domain''\<rparr> ''2024-01-01T00:00:00''
        \<lparr>start_time = 0, outcome = Response 200 ''Example Domain here'', end_time = 1 / 20\<rparr> ''error''
     = Some PNone
   \<and> check_url CONFIG \<lparr>url = ''https://www.example.com'', expected_status = 200,
          search_string = Some ''Example Domain''\<rparr> ''2024-01-01T00:00:00''
        \<lparr>start_time = 0, outcome = Response 200 ''Example Domain here'', end_time = 1 / 20\<rparr> ''content_verified''
     = Some (PBool True)"
proof -
  have s: "check_url CONFIG \<lparr>url = ''https://www.example.com'', expected_status = 200,
          search_string = Some ''Example Domain''\<rparr> ''2024-01-01T00:00:00''
        \<lparr>start_time = 0, outcome = Response 200 ''Example Domain here'', end_time = 1 / 20\<rparr> ''success''
     = Some (PBool True)"
    by (simp add: check_url_def CONFIG_def Let_def)
  show ?thesis
    using s check_url_success_invariant [of CONFIG
      "\<lparr>url = ''https://www.example.com'', expected_status = 200,
          search_string = Some ''Example Domain''\<rparr>" "''2024-01-01T00:00:00''"
      "\<lparr>start_time = 0, outcome = Response 200 ''Example Domain here'', end_time = 1 / 20\<rparr>"]
    by simp
qed

text \<open>
  Claim C1 as stated fails for a search string set to the empty string: the check
  succeeds, and \<open>content_verified\<close> stays \<open>None\<close> instead of being true.
\<close>

theorem check_url_success_invariant_counterexample:
  "check_url CONFIG \<lparr>url = ''https://www.example.com'', expected_status = 200,
          search_string = Some ''''\<rparr> ''2024-01-01T00:00:00''
        \<lparr>start_time = 0, outcome = Response 200 ''Welcome'', end_time = 1 / 20\<rparr> ''success''
     = Some (PBool True)
   \<and> search_string \<lparr>url = ''https://www.example.com'', expected_status = 200,
          search_string = Some ''''\<rparr> \<noteq> None
   \<and> check_url CONFIG \<lparr>url = ''https://www.example.com'', expected_status = 200,
          search_string = Some ''''\<rparr> ''2024-01-01T00:00:00''
        \<lparr>start_time = 0, outcome = Response 200 ''Welcome'', end_time = 1 / 20\<rparr> ''content_verified''
     \<noteq> Some (PBool True)"
  by (simp add: check_url_def CONFIG_def Let_def)

text \<open>
  Claim C2. A response whose status differs from \<open>expected_status\<close> yields the error
  \<open>Unexpected status: {status_code}\<close> and \<open>success\<close> false, for every body and every
  elapsed time; the content check is not run (\<open>content_verified\<close> stays \<open>None\<close>).
\<close>

theorem check_url_unexpected_status:
  assumes "outcome p = Response sc text" and "sc \<noteq> expected_status t"
  shows "check_url cfg t now p ''error'' = Some (PStr (''Unexpected status: '' @ str_int sc))
       \<and> check_url cfg t now p ''success'' = Some (PBool False)
       \<and> check_url cfg t now p ''content_verified'' = Some PNone"
  using assms by (simp add: check_url_def Let_def)

theorem check_url_unexpected_status_witness:
  "check_url CONFIG \<lparr>url = ''https://www.example.com'', expected_status = 200,
        search_string = Some ''Example Domain''\<rparr> ''2024-01-01T00:00:00''
      \<lparr>start_time = 0, outcome = Response 404 ''Not Found'', end_time = 5\<rparr> ''error''
     = Some (PStr ''Unexpected status: 404'')
   \<and> check_url CONFIG \<lparr>url = ''https://www.example.com'', expected_status = 200,
        search_string = Some ''Example Domain''\<rparr> ''2024-01-01T00:00:00''
      \<lparr>start_time = 0, outcome = Response 404 ''Not Found'', end_time = 5\<rparr> ''success''
     = Some (PBool False)"
  using check_url_unexpected_status [of
      "\<lparr>start_time = 0, outcome = Response 404 ''Not Found'', end_time = 5\<rparr>" 404 "''Not Found''"
      "\<lparr>url = ''https://www.example.com'', expected_status = 200,
        search_string = Some ''Example Domain''\<rparr>" CONFIG "''2024-01-01T00:00:00''"]
  by (simp add: str_int_def str_nat.simps digit_char_def)

text \<open>
  Claim C3, as amended. After a response that passes the status and content checks, the
  recorded \<open>response_time_ms\<close> is the elapsed milliseconds rounded to two decimals, but
  the latency check compares the unrounded elapsed milliseconds with the cap: the check
  fails exactly when they exceed it, and the error is then \<open>Slow response: {t}ms\<close> with
  \<open>t\<close> the unrounded value.
\<close>

theorem check_url_latency:
  assumes "outcome p = Response (expected_status t) text"
    and "truthy (search_string t) \<longrightarrow> sublist (the (search_string t)) text"
  shows "check_url cfg t now p ''response_time_ms'' =
           Some (PFloat (py_round ((end_time p - start_time p) * 1000) 2))
       \<and> (check_url cfg t now p ''success'' = Some (PBool False) \<longleftrightarrow>
            max_response_time_ms (monitoring cfg) < (end_time p - start_time p) * 1000)
       \<and> (check_url cfg t now p ''success'' = Some (PBool True) \<longleftrightarrow>
            \<not> max_response_time_ms (monitoring cfg) < (end_time p - start_time p) * 1000)
       \<and> check_url cfg t now p ''error'' =
            Some (if max_response_time_ms (monitoring cfg) < (end_time p - start_time p) * 1000
                  then PStr (''Slow response: '' @ str_float ((end_time p - start_time p) * 1000) @ ''ms'')
                  else PNone)"
  using assms by (simp add: check_url_def Let_def py_in_iff_sublist)

theorem check_url_latency_witness:
  "check_url CONFIG \<lparr>url = ''https://www.google.com'', expected_status = 200, search_string = None\<rparr>
        ''2024-01-01T00:00:00''
        \<lparr>start_time = 0, outcome = Response 200 ''ok'', end_time = 5 / 2\<rparr>
        ''success'' = Some (PBool False)
   \<and> check_url CONFIG \<lparr>url = ''https://www.google.com'', expected_status = 200, search_string = None\<rparr>
        ''2024-01-01T00:00:00''
        \<lparr>start_time = 0, outcome = Response 200 ''ok'', end_time = 5 / 2\<rparr>
        ''error'' = Some (PStr ''Slow response: 2500.0ms'')"
  using check_url_latency [of
      "\<lparr>start_time = 0, outcome = Response 200 ''ok'', end_time = 5 / 2\<rparr>"
      "\<lparr>url = ''https://www.google.com'', expected_status = 200, search_string = None\<rparr>"
      "''ok''" CONFIG "''2024-01-01T00:00:00''"]
  by (simp add: CONFIG_def str_float_def str_nat.simps frac_digits.simps digit_char_def)

text \<open>
  Claim C3 as stated fails at 2000.004 ms elapsed under a cap of 2000 ms: the recorded
  \<open>response_time_ms\<close> is 2000.0, which does not exceed the cap, yet the check fails, and
  the error shows 2000.004 and not the recorded 2000.0.
\<close>

theorem check_url_latency_counterexample:
  "check_url CONFIG \<lparr>url = ''https://www.google.com'', expected_status = 200, search_string = None\<rparr>
        ''2024-01-01T00:00:00''
        \<lparr>start_time = 0, outcome = Response 200 ''ok'', end_time = 2000004 / 1000000\<rparr>
        ''response_time_ms'' = Some (PFloat 2000)
   \<and> \<not> max_response_time_ms (monitoring CONFIG) < 2000
   \<and> check_url CONFIG \<lparr>url = ''https://www.google.com'', expected_status = 200, search_string = None\<rparr>
        ''2024-01-01T00:00:00''
        \<lparr>start_time = 0, outcome = Response 200 ''ok'', end_time = 2000004 / 1000000\<rparr>
        ''success'' = Some (PBool False)
   \<and> check_url CONFIG \<lparr>url = ''https://www.google.com'', expected_status = 200, search_string = None\<rparr>
        ''2024-01-01T00:00:00''
        \<lparr>start_time = 0, outcome = Response 200 ''ok'', end_time = 2000004 / 1000000\<rparr>
        ''error'' = Some (PStr ''Slow response: 2000.004ms'')
   \<and> ''Slow response: '' @ str_float 2000 @ ''ms'' = ''Slow response: 2000.0ms''"
  by (simp add: check_url_def CONFIG_def Let_def py_round_def round_half_even_def
      str_float_def str_nat.simps frac_digits.simps digit_char_def)




text \<open>
  Claim C6. With a search string that does not occur in the body of a response of the
  expected status, \<open>success\<close> is false, \<open>content_verified\<close> is false and the error is
  \<open>Search string not found in response\<close>, whatever the elapsed time.
\<close>

theorem check_url_search_string_missing:
  assumes "search_string t = Some s" and "\<not> sublist s text"
    and "outcome p = Response (expected_status t) text"
  shows "check_url cfg t now p ''success'' = Some (PBool False)
       \<and> check_url cfg t now p ''content_verified'' = Some (PBool False)
       \<and> check_url cfg t now p ''error'' = Some (PStr ''Search string not found in response'')"
proof -
  from assms(2) have "s \<noteq> []" by auto
  with assms show ?thesis
    by (simp add: check_url_def Let_def py_in_iff_sublist)
qed

theorem check_url_search_string_missing_witness:
  "\<not> sublist ''Example Domain'' ''Welcome''
   \<and> check_url CONFIG \<lparr>url = ''https://www.example.com'', expected_status = 200,
          search_string = Some ''Example Domain''\<rparr> ''2024-01-01T00:00:00''
        \<lparr>start_time = 0, outcome = Response 200 ''Welcome'', end_time = 1 / 20\<rparr> ''content_verified''
     = Some (PBool False)
   \<and> check_url CONFIG \<lparr>url = ''https://www.example.com'', expected_status = 200,
          search_string = Some ''Example Domain''\<rparr> ''2024-01-01T00:00:00''
        \<lparr>start_time = 0, outcome = Response 200 ''Welcome'', end_time = 1 / 20\<rparr> ''error''
     = Some (PStr ''Search string not found in response'')"
proof -
  have h: "\<not> sublist ''Example Domain'' ''Welcome''"
    by (simp add: py_in_iff_sublist [symmetric])
  show ?thesis
    using h check_url_search_string_missing [of
      "\<lparr>url = ''https://www.example.com'', expected_status = 200,
          search_string = Some ''Example Domain''\<rparr>" "''Example Domain''" "''Welcome''"
      "\<lparr>start_time = 0, outcome = Response 200 ''Welcome'', end_time = 1 / 20\<rparr>"
      CONFIG "''2024-01-01T00:00:00''"]
    by simp
qed

text \<open>
  Claim C9. A target with no search string configured (\<open>None\<close>) gets a check result
  whose \<open>content_verified\<close> is \<open>None\<close>, whatever the probe did.
\<close>

theorem check_url_no_search_string:
  assumes "search_string t = None"
  shows "check_url cfg t now p ''content_verified'' = Some PNone"
  using assms by (simp add: check_url_def Let_def split: http_outcome.split)

theorem check_url_no_search_string_witness:
  "search_string \<lparr>url = ''https://www.google.com'', expected_status = 200, search_string = None\<rparr> = None
   \<and> check_url CONFIG \<lparr>url = ''https://www.google.com'', expected_status = 200, search_string = None\<rparr>
        ''2024-01-01T00:00:00''
        \<lparr>start_time = 0, outcome = Response 200 ''<html>ok</html>'', end_time = 1 / 20\<rparr>
        ''content_verified'' = Some PNone"
  using check_url_no_search_string [of
      "\<lparr>url = ''https://www.google.com'', expected_status = 200, search_string = None\<rparr>"
      CONFIG "''2024-01-01T00:00:00''"
      "\<lparr>start_time = 0, outcome = Response 200 ''<html>ok</html>'', end_time = 1 / 20\<rparr>"]
  by simp

text \<open>
  Claim C10. An empty search string gives the very check result that no search string
  gives, and \<open>content_verified\<close> stays \<open>None\<close>.
\<close>

theorem check_url_empty_search_string:
  "check_url cfg (t\<lparr>search_string := Some []\<rparr>) now p = check_url cfg (t\<lparr>search_string := None\<rparr>) now p
   \<and> check_url cfg (t\<lparr>search_string := Some []\<rparr>) now p ''content_verified'' = Some PNone"
  by (simp add: check_url_def Let_def split: http_outcome.split)

section \<open>Properties of \<open>send_alert\<close> and \<open>run_checks\<close>\<close>

text \<open>
  Claim C4 asks for \<open>N/A\<close> in place of each absent diagnostic field. The alert built
  for the check result of a refused connection, in which \<open>status_code\<close>,
  \<open>response_time_ms\<close> and \<open>content_verified\<close> are all \<open>None\<close>, shows what the code
  renders instead: the three keys are present with the value \<open>None\<close>, so \<open>.get\<close> never
  falls back on its default and the body reads \<open>None\<close> three times.
\<close>

theorem alert_message_renders_None:
  "alert_message CONFIG
     (check_url CONFIG \<lparr>url = ''https://www.example.com'', expected_status = 200,
          search_string = Some ''Example Domain''\<rparr> ''2024-01-01T00:00:00''
        \<lparr>start_time = 0, outcome = Raised ''Connection refused'', end_time = 0\<rparr>)
   = Inr \<lparr>msg_from = ''monitoring@yourdomain.com'',
          msg_to = ''admin@yourdomain.com, backup@yourdomain.com'',
          msg_subject = ''[URL Monitor] Failure: https://www.example.com'',
          msg_body = render_body
            [''URL Monitoring Alert'',
             ''-------------------'',
             [],
             ''URL: https://www.example.com'',
             ''Time: 2024-01-01T00:00:00'',
             ''Error: Connection refused'',
             [],
             ''Diagnostics:'',
             ''- Status Code: None'',
             ''- Response Time: None ms'',
             ''- Content Verified: None'',
             [],
             ''Recommended Actions:'',
             ''1. Verify server connectivity'',
             ''2. Check application logs'',
             ''3. Validate recent deployments'']\<rparr>"
  by (simp add: alert_message_def check_url_def CONFIG_def getitem_def py_get_def
      alert_body_lines_def Let_def)

text \<open>
  Claim C7. A cycle never raises, and its calls of \<open>send_alert\<close> are exactly the check
  results with \<open>success\<close> false, one call each, in the order of the targets; a result
  with \<open>success\<close> true gets none.
\<close>

theorem run_checks_alert_calls:
  "\<exists>w'. run_checks cfg env w = Inr w'
     \<and> alert_calls w' = alert_calls w @ filter (\<lambda>r. r ''success'' = Some (PBool False))
          (map (\<lambda>(k, t). check_url cfg t (utc_clock env k) (probes env k))
               (enumerate 0 (urls cfg)))"
proof -
  let ?w0 = "logging_info ''Starting URL monitoring checks...'' w"
  from run_loop_total [of cfg env 0 "urls cfg" ?w0] obtain w1 where
    loop: "run_loop cfg env 0 (urls cfg) ?w0 = Inr w1" and
    calls: "alert_calls w1 = alert_calls ?w0 @ filter (\<lambda>r. r ''success'' = Some (PBool False))
          (map (\<lambda>(k, t). check_url cfg t (utc_clock env k) (probes env k))
               (enumerate 0 (urls cfg)))"
    by blast
  have "run_checks cfg env w = Inr (logging_info ''Completed all checks'' w1)"
    using loop by (simp add: run_checks_def)
  moreover have "alert_calls (logging_info ''Completed all checks'' w1) = alert_calls w1"
    and "alert_calls ?w0 = alert_calls w"
    by (simp_all add: logging_info_def)
  ultimately show ?thesis using calls by simp
qed

text \<open>
  The shipped configuration with the first target healthy and the second answering 404:
  one call, for the second target.
\<close>

theorem run_checks_alert_calls_witness:
  "\<exists>w'. run_checks CONFIG
       \<lparr>utc_clock = (\<lambda>k. ''2024-01-01T00:00:00''),
        probes = (\<lambda>k. if k = 0
                       then \<lparr>start_time = 0, outcome = Response 200 ''<html>ok</html>'', end_time = 1 / 20\<rparr>
                       else \<lparr>start_time = 0, outcome = Response 404 ''Not Found'', end_time = 1 / 20\<rparr>),
        relay_sessions = (\<lambda>k. \<lparr>connect_raises = None, starttls_raises = None,
                                 login_raises = None, send_message_raises = None,
                                 quit_raises = None\<rparr>)\<rparr>
       \<lparr>log = [], outbox = [], alert_calls = []\<rparr> = Inr w'
     \<and> alert_calls w' =
         [check_url CONFIG \<lparr>url = ''https://www.example.com'', expected_status = 200,
              search_string = Some ''Example Domain''\<rparr> ''2024-01-01T00:00:00''
            \<lparr>start_time = 0, outcome = Response 404 ''Not Found'', end_time = 1 / 20\<rparr>]"
proof -
  have a: "check_url CONFIG \<lparr>url = ''https://www.google.com'', expected_status = 200,
              search_string = None\<rparr> ''2024-01-01T00:00:00''
            \<lparr>start_time = 0, outcome = Response 200 ''<html>ok</html>'', end_time = 1 / 20\<rparr>
            ''success'' = Some (PBool True)"
    by (simp add: check_url_def CONFIG_def Let_def)
  have b: "check_url CONFIG \<lparr>url = ''https://www.example.com'', expected_status = 200,
              search_string = Some ''Example Domain''\<rparr> ''2024-01-01T00:00:00''
            \<lparr>start_time = 0, outcome = Response 404 ''Not Found'', end_time = 1 / 20\<rparr>
            ''success'' = Some (PBool False)"
    by (simp add: check_url_def CONFIG_def Let_def)
  have u: "urls CONFIG = [\<lparr>url = ''https://www.google.com'', expected_status = 200,
              search_string = None\<rparr>,
            \<lparr>url = ''https://www.example.com'', expected_status = 200,
              search_string = Some ''Example Domain''\<rparr>]"
    by (simp add: CONFIG_def)
  show ?thesis
    using run_checks_alert_calls [of CONFIG
       "\<lparr>utc_clock = (\<lambda>k. ''2024-01-01T00:00:00''),
        probes = (\<lambda>k. if k = 0
                       then \<lparr>start_time = 0, outcome = Response 200 ''<html>ok</html>'', end_time = 1 / 20\<rparr>
                       else \<lparr>start_time = 0, outcome = Response 404 ''Not Found'', end_time = 1 / 20\<rparr>),
        relay_sessions = (\<lambda>k. \<lparr>connect_raises = None, starttls_raises = None,
                                 login_raises = None, send_message_raises = None,
                                 quit_raises = None\<rparr>)\<rparr>"
       "\<lparr>log = [], outbox = [], alert_calls = []\<rparr>"]
    by (simp add: u a b)
qed

text \<open>
  Claim C8. When any step of the SMTP session raises, \<open>send_alert\<close> returns \<open>False\<close>
  and logs the failure instead of raising. A cycle in which a target's session fails so
  still returns normally, ends with the completion record, has written one record per
  target and one per call, and has called \<open>send_alert\<close> for every failing result.
\<close>

theorem send_alert_failure_contained:
  assumes "connect_raises s \<noteq> None \<or> starttls_raises s \<noteq> None \<or> login_raises s \<noteq> None
           \<or> send_message_raises s \<noteq> None \<or> quit_raises s \<noteq> None"
    and "relay_sessions env k = s"
  shows "fst (send_alert cfg s r w0) = False
       \<and> (\<exists>e. last (log (snd (send_alert cfg s r w0))) = (ERROR, ''Failed to send alert: '' @ e))
       \<and> (\<exists>w'. run_checks cfg env w = Inr w'
              \<and> last (log w') = (INFO, ''Completed all checks'')
              \<and> length (log w') + length (alert_calls w)
                  = length (log w) + 2 + length (urls cfg) + length (alert_calls w')
              \<and> alert_calls w' = alert_calls w @ filter (\<lambda>r. r ''success'' = Some (PBool False))
                   (map (\<lambda>(k, t). check_url cfg t (utc_clock env k) (probes env k))
                        (enumerate 0 (urls cfg))))"
proof -
  have alert: "fst (send_alert cfg s r w0) = False
       \<and> (\<exists>e. last (log (snd (send_alert cfg s r w0))) = (ERROR, ''Failed to send alert: '' @ e))"
    using assms(1)
    by (auto simp add: send_alert_def smtp_with_def Let_def logging_error_def
        split: sum.split option.split prod.split)
  let ?w0 = "logging_info ''Starting URL monitoring checks...'' w"
  from run_loop_total [of cfg env 0 "urls cfg" ?w0] obtain w1 where
    loop: "run_loop cfg env 0 (urls cfg) ?w0 = Inr w1" and
    calls: "alert_calls w1 = alert_calls ?w0 @ filter (\<lambda>r. r ''success'' = Some (PBool False))
          (map (\<lambda>(k, t). check_url cfg t (utc_clock env k) (probes env k))
               (enumerate 0 (urls cfg)))" and
    len: "length (log w1) + length (alert_calls ?w0)
            = length (log ?w0) + length (urls cfg) + length (alert_calls w1)"
    by blast
  let ?w2 = "logging_info ''Completed all checks'' w1"
  have run: "run_checks cfg env w = Inr ?w2"
    using loop by (simp add: run_checks_def)
  have w0: "alert_calls ?w0 = alert_calls w" "length (log ?w0) = Suc (length (log w))"
    by (simp_all add: logging_info_def)
  have w2: "alert_calls ?w2 = alert_calls w1" "length (log ?w2) = Suc (length (log w1))"
    "last (log ?w2) = (INFO, ''Completed all checks'')"
    by (simp_all add: logging_info_def)
  have "last (log ?w2) = (INFO, ''Completed all checks'')
      \<and> length (log ?w2) + length (alert_calls w)
          = length (log w) + 2 + length (urls cfg) + length (alert_calls ?w2)
      \<and> alert_calls ?w2 = alert_calls w @ filter (\<lambda>r. r ''success'' = Some (PBool False))
           (map (\<lambda>(k, t). check_url cfg t (utc_clock env k) (probes env k))
                (enumerate 0 (urls cfg)))"
    using w0 w2 calls len by simp
  with run alert show ?thesis by blast
qed

text \<open>
  Both targets of the shipped configuration unreachable and the relay rejecting the
  login: two calls, six log records, the last one the completion record.
\<close>

theorem send_alert_failure_contained_witness:
  "fst (send_alert CONFIG
          \<lparr>connect_raises = None, starttls_raises = None,
           login_raises = Some ''(535, Username and Password not accepted)'',
           send_message_raises = None, quit_raises = None\<rparr>
          (check_url CONFIG \<lparr>url = ''https://www.google.com'', expected_status = 200,
               search_string = None\<rparr> ''2024-01-01T00:00:00''
             \<lparr>start_time = 0, outcome = Raised ''Connection refused'', end_time = 0\<rparr>)
          \<lparr>log = [], outbox = [], alert_calls = []\<rparr>) = False
   \<and> (\<exists>w'. run_checks CONFIG
          \<lparr>utc_clock = (\<lambda>k. ''2024-01-01T00:00:00''),
           probes = (\<lambda>k. \<lparr>start_time = 0, outcome = Raised ''Connection refused'', end_time = 0\<rparr>),
           relay_sessions = (\<lambda>k. \<lparr>connect_raises = None, starttls_raises = None,
                login_raises = Some ''(535, Username and Password not accepted)'',
                send_message_raises = None, quit_raises = None\<rparr>)\<rparr>
          \<lparr>log = [], outbox = [], alert_calls = []\<rparr> = Inr w'
        \<and> last (log w') = (INFO, ''Completed all checks'')
        \<and> length (log w') = 6
        \<and> length (alert_calls w') = 2)"
proof -
  let ?s = "\<lparr>connect_raises = None, starttls_raises = None,
           login_raises = Some ''(535, Username and Password not accepted)'',
           send_message_raises = None, quit_raises = None\<rparr>"
  let ?env = "\<lparr>utc_clock = (\<lambda>k. ''2024-01-01T00:00:00''),
           probes = (\<lambda>k. \<lparr>start_time = 0, outcome = Raised ''Connection refused'', end_time = 0\<rparr>),
           relay_sessions = (\<lambda>k. ?s)\<rparr>"
  have h1: "connect_raises ?s \<noteq> None \<or> starttls_raises ?s \<noteq> None \<or> login_raises ?s \<noteq> None
           \<or> send_message_raises ?s \<noteq> None \<or> quit_raises ?s \<noteq> None"
    by simp
  have h2: "relay_sessions ?env 0 = ?s"
    by simp
  have u: "urls CONFIG = [\<lparr>url = ''https://www.google.com'', expected_status = 200,
              search_string = None\<rparr>,
            \<lparr>url = ''https://www.example.com'', expected_status = 200,
              search_string = Some ''Example Domain''\<rparr>]"
    by (simp add: CONFIG_def)
  have f: "\<And>t. check_url CONFIG t ''2024-01-01T00:00:00''
            \<lparr>start_time = 0, outcome = Raised ''Connection refused'', end_time = 0\<rparr>
            ''success'' = Some (PBool False)"
    by (simp add: check_url_def Let_def)
  show ?thesis
    using send_alert_failure_contained [OF h1 h2, of CONFIG
        "check_url CONFIG \<lparr>url = ''https://www.google.com'', expected_status = 200,
               search_string = None\<rparr> ''2024-01-01T00:00:00''
             \<lparr>start_time = 0, outcome = Raised ''Connection refused'', end_time = 0\<rparr>"
        "\<lparr>log = [], outbox = [], alert_calls = []\<rparr>"
        "\<lparr>log = [], outbox = [], alert_calls = []\<rparr>"]
    by (auto simp add: u f)
qed

end
